theory Spec2Isabelle
  imports Main
begin

section \<open>JavaScript values and the world the snippets run in\<close>

text \<open>
  The repository is a set of stand-alone browser scripts. The values they build are
  primitives, array and object literals, one \<^verbatim>\<open>Error\<close> object, the global object
  (\<^verbatim>\<open>window\<close>, which is \<^verbatim>\<open>this\<close> at the top level of a classic script) and functions.
  Every number written in the sources is a small integer, so a number is an \<open>int\<close>;
  fractions, infinities and \<^verbatim>\<open>NaN\<close> as stored values do not occur.
  An array or object literal is the value of its contents; the global object is the
  reference \<open>GlobalThis\<close>, and its properties are kept in the world below.

  A function value is the closure the source builds, named after the place that builds it:
  \<^item> \<open>Host n\<close>: an arbitrary function of the host program, the \<open>n\<close>-th of a table
    that gives its behaviour (it stands for "every function f" in the statements);
  \<^item> \<open>PrintName\<close>: \<^verbatim>\<open>printName\<close> of \<^verbatim>\<open>Core js Fumdamental/script.js\<close>, line 11;
  \<^item> \<open>MyBind\<close>: the function the script stores in \<^verbatim>\<open>Function.prototype.mybind\<close>, line 20;
  \<^item> \<open>MyBound obj args\<close>: the inner function \<open>mybind\<close> returns (line 25), with the two
    variables it captures;
  \<^item> \<open>NativeBound target boundThis boundArgs\<close>: a bound function made by the built-in
    \<^verbatim>\<open>Function.prototype.bind\<close> (used at line 15);
  \<^item> \<open>ObjItself\<close>: the method \<^verbatim>\<open>objItself\<close> of the object \<^verbatim>\<open>personInfo\<close> in the script on
    the \<^verbatim>\<open>this\<close> keyword;
  \<^item> \<open>Person\<close>: the function \<^verbatim>\<open>Person\<close> that the same script declares at its top level.
\<close>

datatype jsval =
    Undefined
  | Null
  | Bool bool
  | Num int
  | Str string
  | Arr "jsval list"
  | Obj "(string \<times> jsval) list"
  | ErrorObj string
  | GlobalThis
  | Fun fnref
and fnref =
    Host nat
  | PrintName
  | MyBind
  | MyBound jsval "jsval list"
  | NativeBound fnref jsval "jsval list"
  | ObjItself
  | Person

text \<open>A call either returns a value or throws one.\<close>

datatype completion = Normal jsval | Throw jsval

datatype channel = Log | Err

text \<open>
  The callbacks of \<^verbatim>\<open>AsyncPromisse/asyncPromise.js\<close>, named after the place that builds
  them: \<open>SettleSub p\<close> is the arrow function handed to \<^verbatim>\<open>setTimeout\<close> (lines 71 to 75),
  which captures the \<^verbatim>\<open>resolve\<close> and \<^verbatim>\<open>reject\<close> of the promise \<open>p\<close>; \<open>LogResult\<close> is the
  handler given to \<^verbatim>\<open>then\<close> (line 81) and \<open>LogError\<close> the one given to \<^verbatim>\<open>catch\<close> (line 83).
\<close>

datatype task = SettleSub nat

datatype handler = LogResult | LogError

text \<open>
  A promise of the language: its state and the reactions registered while it is pending.
  A reaction holds the two optional handlers of a \<^verbatim>\<open>then\<close> and the promise that
  \<^verbatim>\<open>then\<close> returned. A job is a reaction whose promise has settled, waiting in the
  microtask queue with the settled state.
\<close>

datatype pstate = Pending | Fulfilled jsval | Rejected jsval

datatype reaction = Reaction "handler option" "handler option" nat

record promise =
  pstate :: pstate
  reactions :: "reaction list"

datatype job = ReactionJob reaction pstate

text \<open>What the code of the script did to its promise, in order: a call of the
  \<^verbatim>\<open>resolve\<close> or of the \<^verbatim>\<open>reject\<close> function, and a run of a handler with its argument.\<close>

datatype action = CalledResolve nat jsval | CalledReject nat jsval | RanHandler handler jsval

text \<open>
  The state a script can observe or change: the console (one entry per call of
  \<^verbatim>\<open>console.log\<close> or \<^verbatim>\<open>console.error\<close>, with the arguments of the call; a logged global
  object is the reference, not a copy of its properties), the properties of the global
  object, the properties the scripts add to \<^verbatim>\<open>Function.prototype\<close>, and the
  event loop: the promises made so far, the microtask queue, the timers that have not
  fired (each with the time it is due, the earliest first), and the time in milliseconds.
\<close>

record world =
  console :: "(channel \<times> jsval list) list"
  globals :: "string \<rightharpoonup> jsval"
  fn_proto :: "string \<rightharpoonup> jsval"
  promises :: "promise list"
  microtasks :: "job list"
  timers :: "(nat \<times> task) list"
  clock :: nat
  history :: "action list"

definition console_log :: "jsval list \<Rightarrow> world \<Rightarrow> world" where
  "console_log vs w = w\<lparr>console := console w @ [(Log, vs)]\<rparr>"

definition console_error :: "jsval list \<Rightarrow> world \<Rightarrow> world" where
  "console_error vs w = w\<lparr>console := console w @ [(Err, vs)]\<rparr>"

text \<open>An assignment to an identifier that no scope declares creates (or overwrites) a
  property of the global object: the scripts are not in strict mode.\<close>

definition assign_global :: "string \<Rightarrow> jsval \<Rightarrow> world \<Rightarrow> world" where
  "assign_global x v w = w\<lparr>globals := (globals w)(x \<mapsto> v)\<rparr>"

text \<open>Reading a property that is absent gives \<^verbatim>\<open>undefined\<close>.\<close>

definition read_global :: "string \<Rightarrow> world \<Rightarrow> jsval" where
  "read_global x w = (case globals w x of None \<Rightarrow> Undefined | Some v \<Rightarrow> v)"

text \<open>
  Reading an identifier that no scope of the script declares: it is looked up in the
  global object, and an identifier that is not there is a \<^verbatim>\<open>ReferenceError\<close>. Under
  \<^verbatim>\<open>typeof\<close> such an identifier gives \<^verbatim>\<open>"undefined"\<close> instead.
\<close>

definition type_error :: jsval where
  "type_error = ErrorObj ''TypeError''"

definition reference_error :: jsval where
  "reference_error = ErrorObj ''ReferenceError''"

definition read_identifier :: "string \<Rightarrow> world \<Rightarrow> completion" where
  "read_identifier x w =
     (case globals w x of None \<Rightarrow> Throw reference_error | Some v \<Rightarrow> Normal v)"

subsection \<open>Built-in operations the scripts use\<close>

text \<open>\<^verbatim>\<open>xs[i]\<close> on an array: \<^verbatim>\<open>undefined\<close> out of range.\<close>

definition index_js :: "jsval list \<Rightarrow> nat \<Rightarrow> jsval" where
  "index_js xs i = (if i < length xs then xs ! i else Undefined)"

text \<open>\<^verbatim>\<open>xs.slice(start)\<close>: a negative start counts from the end, and the start is
  clamped to the array.\<close>

definition slice_js :: "int \<Rightarrow> jsval list \<Rightarrow> jsval list" where
  "slice_js start xs =
     (let len = int (length xs);
          k = (if start < 0 then max (len + start) 0 else min start len)
      in drop (nat k) xs)"

fun typeof_js :: "jsval \<Rightarrow> string" where
  "typeof_js Undefined = ''undefined''"
| "typeof_js (Bool b) = ''boolean''"
| "typeof_js (Num n) = ''number''"
| "typeof_js (Str s) = ''string''"
| "typeof_js (Fun f) = ''function''"
| "typeof_js v = ''object''"

definition typeof_identifier :: "string \<Rightarrow> world \<Rightarrow> string" where
  "typeof_identifier x w =
     (case globals w x of None \<Rightarrow> ''undefined'' | Some v \<Rightarrow> typeof_js v)"

text \<open>The \<^verbatim>\<open>this\<close> of a function that is not in strict mode: \<^verbatim>\<open>undefined\<close> and
  \<^verbatim>\<open>null\<close> are replaced by the global object.\<close>

fun sloppy_this :: "jsval \<Rightarrow> jsval" where
  "sloppy_this Undefined = GlobalThis"
| "sloppy_this Null = GlobalThis"
| "sloppy_this v = v"

text \<open>\<^verbatim>\<open>o.p\<close> for the property names the scripts read. An object literal gives its own
  property, the global object its property, and every other value \<^verbatim>\<open>undefined\<close> (none of
  the names read is a property of a prototype).\<close>

fun get_prop :: "jsval \<Rightarrow> string \<Rightarrow> world \<Rightarrow> jsval" where
  "get_prop (Obj ps) p w = (case map_of ps p of None \<Rightarrow> Undefined | Some v \<Rightarrow> v)"
| "get_prop GlobalThis p w = read_global p w"
| "get_prop v p w = Undefined"

text \<open>The decimal text of a number.\<close>

function show_nat :: "nat \<Rightarrow> string" where
  "show_nat n =
     (if n < 10 then [''0123456789'' ! n]
      else show_nat (n div 10) @ [''0123456789'' ! (n mod 10)])"
  by pat_completeness auto
termination
  by (relation "measure (\<lambda>n. n)") auto

definition show_int :: "int \<Rightarrow> string" where
  "show_int i = (if i < 0 then CHR ''-'' # show_nat (nat (- i)) else show_nat (nat i))"

fun join_js :: "string \<Rightarrow> string list \<Rightarrow> string" where
  "join_js sep [] = []"
| "join_js sep [s] = s"
| "join_js sep (s # t # ss) = s @ sep @ join_js sep (t # ss)"

text \<open>
  \<^verbatim>\<open>String(v)\<close>, the text a value is converted to by string concatenation, a template
  literal or \<^verbatim>\<open>toString()\<close>. An array joins its elements with commas, and an element that
  is \<^verbatim>\<open>undefined\<close> or \<^verbatim>\<open>null\<close> gives the empty text there. The source text that a
  function converts to is not modelled: every function is rendered as the text a bound
  function has.
\<close>

fun to_string :: "jsval \<Rightarrow> string"
  and element_strings :: "jsval list \<Rightarrow> string list" where
  "to_string Undefined = ''undefined''"
| "to_string Null = ''null''"
| "to_string (Bool b) = (if b then ''true'' else ''false'')"
| "to_string (Num n) = show_int n"
| "to_string (Str s) = s"
| "to_string (Arr xs) = join_js '','' (element_strings xs)"
| "to_string (Obj ps) = ''[object Object]''"
| "to_string (ErrorObj m) = ''Error: '' @ m"
| "to_string GlobalThis = ''[object Window]''"
| "to_string (Fun f) = ''function () { [native code] }''"
| "element_strings [] = []"
| "element_strings (Undefined # xs) = [] # element_strings xs"
| "element_strings (Null # xs) = [] # element_strings xs"
| "element_strings (x # xs) = to_string x # element_strings xs"

text \<open>\<^verbatim>\<open>a + b\<close> where one operand is a string: both operands are converted to text and
  concatenated. The caller passes the operands in order.\<close>

definition concat_js :: "jsval \<Rightarrow> jsval \<Rightarrow> jsval" where
  "concat_js a b = Str (to_string a @ to_string b)"

section \<open>The array snippets\<close>

subsection \<open>Comparison\<close>

text \<open>
  \<^verbatim>\<open>a < b\<close> and \<^verbatim>\<open>a > b\<close> of the language. An operand that is an object is first
  converted to its text. Two texts are compared character by character; otherwise both
  operands are converted to numbers, and a comparison with \<^verbatim>\<open>NaN\<close> is false.
  The number a text converts to: surrounding blanks are dropped, the empty text is 0, an
  optional sign and decimal digits give the integer, and every other text is \<^verbatim>\<open>NaN\<close>
  (\<open>None\<close>). Texts of numbers with a fraction, an exponent or a radix prefix, which are
  numbers in the language, do not occur in the sources and are outside this model.
\<close>

definition is_digit :: "char \<Rightarrow> bool" where
  "is_digit c = (c \<in> set ''0123456789'')"

definition is_blank :: "char \<Rightarrow> bool" where
  "is_blank c = (c \<in> {CHR '' '', CHR 0x09, CHR 0x0A, CHR 0x0B, CHR 0x0C, CHR 0x0D})"

definition digit_value :: "char \<Rightarrow> nat" where
  "digit_value c = (of_char c :: nat) - 48"

definition digits_value :: "string \<Rightarrow> nat" where
  "digits_value s = foldl (\<lambda>acc c. 10 * acc + digit_value c) 0 s"

definition trim_js :: "string \<Rightarrow> string" where
  "trim_js s = rev (dropWhile is_blank (rev (dropWhile is_blank s)))"

definition unsigned_number :: "string \<Rightarrow> int option" where
  "unsigned_number s =
     (if s \<noteq> [] \<and> list_all is_digit s then Some (int (digits_value s)) else None)"

definition string_to_number :: "string \<Rightarrow> int option" where
  "string_to_number s =
     (case trim_js s of
        [] \<Rightarrow> Some 0
      | c # cs \<Rightarrow>
          if c = CHR ''-'' then map_option uminus (unsigned_number cs)
          else if c = CHR ''+'' then unsigned_number cs
          else unsigned_number (c # cs))"

fun to_primitive :: "jsval \<Rightarrow> jsval" where
  "to_primitive (Arr xs) = Str (to_string (Arr xs))"
| "to_primitive (Obj ps) = Str (to_string (Obj ps))"
| "to_primitive (ErrorObj m) = Str (to_string (ErrorObj m))"
| "to_primitive GlobalThis = Str (to_string GlobalThis)"
| "to_primitive (Fun f) = Str (to_string (Fun f))"
| "to_primitive v = v"

fun to_number :: "jsval \<Rightarrow> int option" where
  "to_number Undefined = None"
| "to_number Null = Some 0"
| "to_number (Bool b) = Some (if b then 1 else 0)"
| "to_number (Num n) = Some n"
| "to_number (Str s) = string_to_number s"
| "to_number v = None"

fun string_less :: "string \<Rightarrow> string \<Rightarrow> bool" where
  "string_less [] [] = False"
| "string_less [] (y # ys) = True"
| "string_less (x # xs) [] = False"
| "string_less (x # xs) (y # ys) =
     (if (of_char x :: nat) < of_char y then True
      else if (of_char y :: nat) < of_char x then False
      else string_less xs ys)"

fun primitive_less :: "jsval \<Rightarrow> jsval \<Rightarrow> bool" where
  "primitive_less (Str a) (Str b) = string_less a b"
| "primitive_less a b =
     (case (to_number a, to_number b) of
        (Some m, Some n) \<Rightarrow> m < n
      | _ \<Rightarrow> False)"

definition less_js :: "jsval \<Rightarrow> jsval \<Rightarrow> bool" where
  "less_js a b = primitive_less (to_primitive a) (to_primitive b)"

definition greater_js :: "jsval \<Rightarrow> jsval \<Rightarrow> bool" where
  "greater_js a b = primitive_less (to_primitive b) (to_primitive a)"

subsection \<open>\<^verbatim>\<open>find\<close>, \<^verbatim>\<open>findIndex\<close> and \<^verbatim>\<open>flat\<close>\<close>

text \<open>
  \<^verbatim>\<open>xs.find(p)\<close> is the first element \<open>p\<close> accepts, or \<^verbatim>\<open>undefined\<close>;
  \<^verbatim>\<open>xs.findIndex(p)\<close> is the index of that element, or -1.
\<close>

fun find_js :: "(jsval \<Rightarrow> bool) \<Rightarrow> jsval list \<Rightarrow> jsval" where
  "find_js p [] = Undefined"
| "find_js p (x # xs) = (if p x then x else find_js p xs)"

fun findIndex_from :: "nat \<Rightarrow> (jsval \<Rightarrow> bool) \<Rightarrow> jsval list \<Rightarrow> int" where
  "findIndex_from i p [] = - 1"
| "findIndex_from i p (x # xs) = (if p x then int i else findIndex_from (Suc i) p xs)"

definition findIndex_js :: "(jsval \<Rightarrow> bool) \<Rightarrow> jsval list \<Rightarrow> int" where
  "findIndex_js p xs = findIndex_from 0 p xs"

text \<open>
  \<^verbatim>\<open>xs.flat(depth)\<close>: an element that is an array is replaced by its own elements,
  flattened one level less, as long as the depth is positive. \<^verbatim>\<open>xs.flat()\<close> has depth 1.
\<close>

fun flat_js :: "nat \<Rightarrow> jsval list \<Rightarrow> jsval list" where
  "flat_js d [] = []"
| "flat_js d (Arr ys # xs) =
     (if 0 < d then flat_js (d - 1) ys @ flat_js d xs else Arr ys # flat_js d xs)"
| "flat_js d (x # xs) = x # flat_js d xs"

definition flat_default :: "jsval list \<Rightarrow> jsval list" where
  "flat_default xs = flat_js 1 xs"

text \<open>What one level of nesting holds: the elements of an array, and any other value
  itself.\<close>

fun one_level :: "jsval \<Rightarrow> jsval list" where
  "one_level (Arr ys) = ys"
| "one_level v = [v]"

subsection \<open>The other array and string methods of the script\<close>

text \<open>\<^verbatim>\<open>xs.every(p)\<close>: whether \<open>p\<close> accepts every element.\<close>

definition every_js :: "(jsval \<Rightarrow> bool) \<Rightarrow> jsval list \<Rightarrow> bool" where
  "every_js p xs = list_all p xs"

text \<open>
  \<^verbatim>\<open>xs.splice(start, deleteCount, ...items)\<close> with a start and a count that are not
  negative: both are clamped to the array, the elements removed are returned, and the
  array is left with the items in their place.
\<close>

definition splice_js :: "nat \<Rightarrow> nat \<Rightarrow> jsval list \<Rightarrow> jsval list \<Rightarrow> jsval list \<times> jsval list" where
  "splice_js start delete_count items xs =
     (let from = min start (length xs);
          n = min delete_count (length xs - from)
      in (take n (drop from xs), take from xs @ items @ drop (from + n) xs))"

text \<open>
  \<^verbatim>\<open>a === b\<close>. Primitives are equal when they are the same value of the same type.
  An array or object literal is a new object, equal to nothing that is stored elsewhere;
  the global object and a function are equal to themselves.
\<close>

fun strict_equals :: "jsval \<Rightarrow> jsval \<Rightarrow> bool" where
  "strict_equals (Arr xs) b = False"
| "strict_equals (Obj ps) b = False"
| "strict_equals (ErrorObj m) b = False"
| "strict_equals a b = (a = b)"

text \<open>\<^verbatim>\<open>xs.indexOf(v)\<close> and \<^verbatim>\<open>xs.lastIndexOf(v)\<close>: the first and the last index of an
  element that is \<^verbatim>\<open>===\<close> to \<open>v\<close>, or -1.\<close>

definition indexOf_js :: "jsval \<Rightarrow> jsval list \<Rightarrow> int" where
  "indexOf_js v xs = findIndex_from 0 (\<lambda>x. strict_equals x v) xs"

definition lastIndexOf_js :: "jsval \<Rightarrow> jsval list \<Rightarrow> int" where
  "lastIndexOf_js v xs =
     (case findIndex_from 0 (\<lambda>x. strict_equals x v) (rev xs) of
        i \<Rightarrow> if i < 0 then - 1 else int (length xs) - 1 - i)"

text \<open>\<^verbatim>\<open>s.toUpperCase()\<close> on the letters a to z; the texts of the script have no other
  character that has an upper case.\<close>

definition upper_char :: "char \<Rightarrow> char" where
  "upper_char c =
     (if (97::nat) \<le> of_char c \<and> of_char c \<le> (122::nat) then char_of (of_char c - (32::nat)) else c)"

definition toUpperCase_js :: "string \<Rightarrow> string" where
  "toUpperCase_js s = map upper_char s"

text \<open>\<^verbatim>\<open>s.replace(pattern, replacement)\<close> with a text pattern: the first occurrence of
  the pattern is replaced. The replacement of the script has no \<^verbatim>\<open>$\<close>, so it is
  inserted as it is.\<close>

fun is_prefix :: "string \<Rightarrow> string \<Rightarrow> bool" where
  "is_prefix [] s = True"
| "is_prefix (p # ps) [] = False"
| "is_prefix (p # ps) (c # cs) = (p = c \<and> is_prefix ps cs)"

fun replace_js :: "string \<Rightarrow> string \<Rightarrow> string \<Rightarrow> string" where
  "replace_js pattern replacement [] = (if pattern = [] then replacement else [])"
| "replace_js pattern replacement (c # cs) =
     (if is_prefix pattern (c # cs) then replacement @ drop (length pattern) (c # cs)
      else c # replace_js pattern replacement cs)"

text \<open>\<^verbatim>\<open>xs.join(sep)\<close>, and \<^verbatim>\<open>xs.concat(ys, zs)\<close> on arrays.\<close>

definition array_join :: "string \<Rightarrow> jsval list \<Rightarrow> string" where
  "array_join sep xs = join_js sep (element_strings xs)"

definition concat_arrays :: "jsval list \<Rightarrow> jsval list list \<Rightarrow> jsval list" where
  "concat_arrays xs yss = xs @ concat yss"

text \<open>The literals and callbacks of the array script (lines 5, 13, 33, 34 and 36).\<close>

definition checkEvery :: "jsval \<Rightarrow> bool" where
  "checkEvery el = less_js (Num 0) el"

definition arr :: "jsval list" where
  "arr = [Num 1, Num 2, Num 3,
          Arr [Num 4, Num 5, Arr [Num 6, Num 7, Arr [Num 8, Num 9, Arr [Num 10]]]]]"

definition list_literal :: "jsval list" where
  "list_literal = [Num 1, Str ''13'', Num 13, Num 22, Num 32, Num 22]"

definition above_10 :: "jsval \<Rightarrow> bool" where
  "above_10 ele = greater_js ele (Num 10)"

definition above_100 :: "jsval \<Rightarrow> bool" where
  "above_100 ele = greater_js ele (Num 100)"

text \<open>
  The top level of the array script: every statement writes one entry to the console.
  \<^verbatim>\<open>new Array(5, 8, 9)\<close> with three arguments is the array of the three.
\<close>

definition array_js :: "world \<Rightarrow> world" where
  "array_js w =
     (let w1 = console_log [Str ''array''] w;
          arrayNew = [Num 5, Num 8, Num 9];
          w2 = console_log [Arr arrayNew] w1;
          w3 = console_log [Arr arr] w2;
          lZero = flat_default arr;
          w4 = console_log [Arr lZero] w3;
          lZero1 = flat_js 999 arr;
          w5 = console_log [Arr lZero1] w4;
          w6 = console_log [Bool (every_js checkEvery [Num 1, Num 7, Num 8])] w5;
          w7 = console_log [Str (to_string (Arr arr))] w6;
          cars = [Str ''Mazda'', Str ''BMW'', Str ''Ford''];
          spliced = splice_js 1 1 [Str ''nano'', Str ''thar''] cars;
          w8 = console_log [Arr (fst spliced)] w7;
          w9 = console_log [Arr (snd spliced)] w8;
          w10 = console_log [find_js above_10 list_literal] w9;
          w11 = console_log [Num (findIndex_js above_10 list_literal)] w10;
          w12 = console_log [Num (findIndex_js above_100 list_literal)] w11;
          w13 = console_log [Str ''index of 22'', Num (indexOf_js (Num 22) list_literal)] w12;
          w14 = console_log [Str ''lastindex of 22'', Num (lastIndexOf_js (Num 22) list_literal)] w13;
          concatElement1 = [Str ''p'', Str ''j'', Str ''i''];
          concatElement2 = [Str ''u'', Str ''s'', Str ''h''];
          concatElement3 = [Str ''r'', Str ''a'', Str ''y''];
          allElement =
            replace_js ''R'' '' R''
              (toUpperCase_js
                (array_join [] (concat_arrays concatElement1 [concatElement2, concatElement3])))
      in console_log [Str allElement] w14)"

section \<open>The relative time script\<close>

text \<open>
  \<^verbatim>\<open>new Intl.RelativeTimeFormat("en-US", {numeric: ...}).format(value, "day")\<close> for a whole
  number of days, as the English locale data of the platform words it: with
  \<^verbatim>\<open>numeric: "auto"\<close> the days -1, 0 and 1 have names, and otherwise the number is
  written out.
\<close>

definition days_text :: "nat \<Rightarrow> string" where
  "days_text n = show_nat n @ (if n = 1 then '' day'' else '' days'')"

definition format_days :: "bool \<Rightarrow> int \<Rightarrow> string" where
  "format_days auto v =
     (if auto \<and> v = - 1 then ''yesterday''
      else if auto \<and> v = 0 then ''today''
      else if auto \<and> v = 1 then ''tomorrow''
      else if v < 0 then days_text (nat (- v)) @ '' ago''
      else ''in '' @ days_text (nat v))"

definition date_js :: "world \<Rightarrow> world" where
  "date_js w =
     (let w1 = console_log [Str ''relative time''] w;
          dateFormatterAuto = True;
          w2 = console_log [Str (format_days dateFormatterAuto (- 1))] w1;
          dateFormatterNumeric = False
      in console_log [Str (format_days dateFormatterNumeric (- 1))] w2)"

section \<open>The class \<^verbatim>\<open>Client\<close>\<close>

text \<open>
  \<^verbatim>\<open>
  class Client {
      constructor() { this.clientId = "124"; }
      getClientId() { return this.clientId; }
      changeClientId(newId) { return this.clientId = newId; }
      sayWelcome() { console.log(`welcome ${this.getClientId()}`); }
  }
  \<close>
  An instance has the one field the constructor sets. A method takes the instance and
  returns its result with the instance as the method leaves it.
\<close>

record client =
  clientId :: jsval

definition new_Client :: client where
  "new_Client = \<lparr>clientId = Str ''124''\<rparr>"

definition getClientId :: "client \<Rightarrow> jsval \<times> client" where
  "getClientId c = (clientId c, c)"

definition changeClientId :: "jsval \<Rightarrow> client \<Rightarrow> jsval \<times> client" where
  "changeClientId newId c = (newId, c\<lparr>clientId := newId\<rparr>)"

definition sayWelcome :: "client \<Rightarrow> world \<Rightarrow> jsval \<times> client \<times> world" where
  "sayWelcome c w =
     (case getClientId c of
        (ident, c') \<Rightarrow> (Undefined, c', console_log [concat_js (Str ''welcome '') ident] w))"

text \<open>\<open>n\<close> calls of \<^verbatim>\<open>getClientId\<close> one after the other: the values returned.\<close>

fun repeated_get :: "nat \<Rightarrow> client \<Rightarrow> jsval list" where
  "repeated_get 0 c = []"
| "repeated_get (Suc n) c = (case getClientId c of (v, c') \<Rightarrow> v # repeated_get n c')"

section \<open>The script on the \<^verbatim>\<open>this\<close> keyword\<close>

text \<open>
  The functions of the script. An arrow function has the \<^verbatim>\<open>this\<close> of the place it is
  written in, here the top level; a function called without a receiver gets
  \<^verbatim>\<open>undefined\<close>, which \<open>sloppy_this\<close> replaces by the global object.
  \<^item> \<^verbatim>\<open>const greet = () => { console.log(this); }\<close>
  \<^item> \<^verbatim>\<open>function Person(person) { this.name = person, console.log(this); }\<close>. Its body
    sets the property on its \<^verbatim>\<open>this\<close> and logs it. Called with \<^verbatim>\<open>new\<close>, \<^verbatim>\<open>this\<close> is a
    new empty object, which the call returns; called as a function, it returns
    \<^verbatim>\<open>undefined\<close>.
  \<^item> \<^verbatim>\<open>function innerFunction() { console.log(this); console.log(name); }\<close>, where the
    identifier \<^verbatim>\<open>name\<close> is declared in no scope of the script.
  \<^item> \<^verbatim>\<open>objItself\<close> logs its receiver and the receiver's \<^verbatim>\<open>name\<close> under a label, then
    calls \<^verbatim>\<open>innerFunction()\<close>.
\<close>

definition top_level_this :: jsval where
  "top_level_this = GlobalThis"

definition window :: jsval where
  "window = GlobalThis"

definition rocket :: string where
  "rocket = [CHR 0xF0, CHR 0x9F, CHR 0x9A, CHR 0x80]"

definition greet :: "world \<Rightarrow> world" where
  "greet w = console_log [top_level_this] w"

text \<open>
  \<^verbatim>\<open>o.p = v\<close>. An object literal keeps the place of a property it has and gets a new
  one at its end; the global object gets the property in the world. An object is the
  value of its contents here, so the object after the assignment is returned. The scripts
  assign to no property of any other value, which is left as it is.
\<close>

fun put_property :: "string \<Rightarrow> jsval \<Rightarrow> (string \<times> jsval) list \<Rightarrow> (string \<times> jsval) list" where
  "put_property p v [] = [(p, v)]"
| "put_property p v ((q, u) # ps) =
     (if p = q then (q, v) # ps else (q, u) # put_property p v ps)"

fun set_prop :: "jsval \<Rightarrow> string \<Rightarrow> jsval \<Rightarrow> world \<Rightarrow> jsval \<times> world" where
  "set_prop (Obj ps) p v w = (Obj (put_property p v ps), w)"
| "set_prop GlobalThis p v w = (GlobalThis, assign_global p v w)"
| "set_prop x p v w = (x, w)"

definition Person_body :: "jsval \<Rightarrow> jsval \<Rightarrow> world \<Rightarrow> jsval \<times> world" where
  "Person_body self person w =
     (case set_prop self ''name'' person w of
        (self', w1) \<Rightarrow> (self', console_log [self'] w1))"

definition new_Person :: "jsval \<Rightarrow> world \<Rightarrow> jsval \<times> world" where
  "new_Person person w = Person_body (Obj []) person w"

definition innerFunction :: "jsval \<Rightarrow> world \<Rightarrow> completion \<times> world" where
  "innerFunction this_arg w =
     (let w1 = console_log [sloppy_this this_arg] w
      in case read_identifier ''name'' w1 of
           Throw e \<Rightarrow> (Throw e, w1)
         | Normal v \<Rightarrow> (Normal Undefined, console_log [v] w1))"

definition objItself :: "jsval \<Rightarrow> world \<Rightarrow> completion \<times> world" where
  "objItself this_arg w =
     (let self = sloppy_this this_arg;
          label = Str (rocket @ '' ~ file: script.js:35 ~ name'');
          w1 = console_log [label, self] w;
          w2 = console_log [label, get_prop self ''name'' w1] w1
      in innerFunction Undefined w2)"

section \<open>The hand-written bind of \<^verbatim>\<open>Core js Fumdamental/script.js\<close>\<close>

text \<open>
  \<^verbatim>\<open>
  Function.prototype.mybind = function (...args) {
      let obj = this;
      params = args.slice(1);
      console.log(params); console.log(typeof (params));
      return function () {
          console.log(args[0]);
          obj.call(args[0])
      }
  }
  \<close>
  \<open>mybind\<close> is the outer function: it takes its \<^verbatim>\<open>this\<close> and the array of its arguments.
  \<^verbatim>\<open>params\<close> is declared nowhere, so the assignment writes the global object, and the
  two reads that follow look the identifier up there.
\<close>

definition mybind :: "jsval \<Rightarrow> jsval list \<Rightarrow> world \<Rightarrow> completion \<times> world" where
  "mybind this_arg args w =
     (let obj = sloppy_this this_arg;
          w1 = assign_global ''params'' (Arr (slice_js 1 args)) w
      in case read_identifier ''params'' w1 of
           Throw e \<Rightarrow> (Throw e, w1)
         | Normal params \<Rightarrow>
             (let w2 = console_log [params] w1;
                  w3 = console_log [Str (typeof_identifier ''params'' w2)] w2
              in (Normal (Fun (MyBound obj args)), w3)))"

text \<open>
  The built-in \<^verbatim>\<open>f.bind(thisArg, ...boundArgs)\<close> of the language, which line 15 of the
  script uses and which \<open>mybind\<close> is written after: it throws a \<^verbatim>\<open>TypeError\<close> when \<open>f\<close> is
  not callable and makes a bound function otherwise.
\<close>

fun native_bind :: "jsval \<Rightarrow> jsval list \<Rightarrow> completion" where
  "native_bind (Fun f) args = Normal (Fun (NativeBound f (index_js args 0) (drop 1 args)))"
| "native_bind v args = Throw type_error"

text \<open>
  Calling a function value. Every call is recorded with its nesting depth, the function
  called, the \<^verbatim>\<open>this\<close> argument and the arguments, in the order the calls begin; the
  record is how "calls f exactly once" is read off a run.
  \<^item> A host function behaves as its table entry says.
  \<^item> \<open>PrintName\<close> (line 11): \<^verbatim>\<open>console.log(this.firstName + " " + this.lastName)\<close>.
  \<^item> \<open>MyBound obj args\<close> (lines 25 to 28) logs \<^verbatim>\<open>args[0]\<close>, then evaluates
    \<^verbatim>\<open>obj.call(args[0])\<close>: the built-in \<^verbatim>\<open>call\<close> invokes \<open>obj\<close> with that \<^verbatim>\<open>this\<close> and no
    argument. A value that is not a function has no callable \<^verbatim>\<open>call\<close> property, which is a
    \<^verbatim>\<open>TypeError\<close>. The inner function has no \<^verbatim>\<open>return\<close>, so it returns \<^verbatim>\<open>undefined\<close>
    unless the call throws.
  \<^item> A bound function of the language calls its target with the bound \<^verbatim>\<open>this\<close> and the
    bound arguments followed by the arguments of the call, and returns what the target returns.
  \<^item> \<open>ObjItself\<close> and \<open>Person\<close> are the functions of the script on \<^verbatim>\<open>this\<close>, defined
    above; \<open>Person\<close> is here called as a function, without \<^verbatim>\<open>new\<close>.
\<close>

datatype event = Invoke nat fnref jsval "jsval list"

type_synonym hostfn = "nat \<Rightarrow> jsval \<Rightarrow> jsval list \<Rightarrow> world \<Rightarrow> completion \<times> world"

fun discard_result :: "completion \<Rightarrow> completion" where
  "discard_result (Normal v) = Normal Undefined"
| "discard_result (Throw e) = Throw e"

fun call :: "hostfn \<Rightarrow> nat \<Rightarrow> fnref \<Rightarrow> jsval \<Rightarrow> jsval list \<Rightarrow> world
    \<Rightarrow> completion \<times> world \<times> event list" where
  "call tbl d (Host n) this_arg args w =
     (case tbl n this_arg args w of
        (c, w') \<Rightarrow> (c, w', [Invoke d (Host n) this_arg args]))"
| "call tbl d PrintName this_arg args w =
     (let self = sloppy_this this_arg;
          line = concat_js (concat_js (get_prop self ''firstName'' w) (Str '' ''))
                   (get_prop self ''lastName'' w)
      in (Normal Undefined, console_log [line] w, [Invoke d PrintName this_arg args]))"
| "call tbl d MyBind this_arg args w =
     (case mybind this_arg args w of
        (c, w') \<Rightarrow> (c, w', [Invoke d MyBind this_arg args]))"
| "call tbl d (MyBound (Fun f) captured) this_arg args w =
     (let w1 = console_log [index_js captured 0] w
      in case call tbl (Suc d) f (index_js captured 0) [] w1 of
           (c, w2, tr) \<Rightarrow>
             (discard_result c, w2, Invoke d (MyBound (Fun f) captured) this_arg args # tr))"
| "call tbl d (MyBound obj captured) this_arg args w =
     (let w1 = console_log [index_js captured 0] w
      in (Throw type_error, w1, [Invoke d (MyBound obj captured) this_arg args]))"
| "call tbl d (NativeBound f bound_this bound_args) this_arg args w =
     (case call tbl (Suc d) f bound_this (bound_args @ args) w of
        (c, w', tr) \<Rightarrow> (c, w', Invoke d (NativeBound f bound_this bound_args) this_arg args # tr))"
| "call tbl d ObjItself this_arg args w =
     (case objItself this_arg w of
        (c, w') \<Rightarrow> (c, w', [Invoke d ObjItself this_arg args]))"
| "call tbl d Person this_arg args w =
     (case Person_body (sloppy_this this_arg) (index_js args 0) w of
        (self, w') \<Rightarrow> (Normal Undefined, w', [Invoke d Person this_arg args]))"

fun event_depth :: "event \<Rightarrow> nat" where
  "event_depth (Invoke d f t a) = d"

fun event_args :: "event \<Rightarrow> jsval list" where
  "event_args (Invoke d f t a) = a"

text \<open>The outcome, the world and the record of a call, named.\<close>

definition outcome_of :: "completion \<times> world \<times> event list \<Rightarrow> completion" where
  "outcome_of r = fst r"

definition world_of :: "completion \<times> world \<times> event list \<Rightarrow> world" where
  "world_of r = fst (snd r)"

definition calls_of :: "completion \<times> world \<times> event list \<Rightarrow> event list" where
  "calls_of r = snd (snd r)"

text \<open>The calls a function's own body makes, when the function runs at depth \<open>d\<close>.\<close>

definition direct_calls :: "nat \<Rightarrow> event list \<Rightarrow> event list" where
  "direct_calls d tr = filter (\<lambda>e. event_depth e = Suc d) tr"

fun invoke :: "hostfn \<Rightarrow> nat \<Rightarrow> jsval \<Rightarrow> jsval \<Rightarrow> jsval list \<Rightarrow> world
    \<Rightarrow> completion \<times> world \<times> event list" where
  "invoke tbl d (Fun f) this_arg args w = call tbl d f this_arg args w"
| "invoke tbl d v this_arg args w = (Throw type_error, w, [])"

text \<open>The page before any script has run.\<close>

definition empty_world :: world where
  "empty_world =
     \<lparr>console = [], globals = Map.empty, fn_proto = Map.empty, promises = [],
      microtasks = [], timers = [], clock = 0, history = []\<rparr>"

text \<open>The object \<^verbatim>\<open>name1\<close> of the script (line 6), and a host function that returns its
  first argument, \<^verbatim>\<open>function (x) { return x }\<close>.\<close>

definition name1 :: jsval where
  "name1 = Obj [(''firstName'', Str ''Pijush''), (''lastName'', Str ''Ray mondal'')]"

definition first_argument :: hostfn where
  "first_argument n this_arg args w = (Normal (index_js args 0), w)"

text \<open>A host function that shows each of its runs on the console,
  \<^verbatim>\<open>function (...xs) { console.log("called", this, xs); return this }\<close>.\<close>

definition announce :: hostfn where
  "announce n this_arg args w =
     (Normal this_arg, console_log [Str ''called'', this_arg, Arr args] w)"

fun is_function_result :: "completion \<Rightarrow> bool" where
  "is_function_result (Normal (Fun f)) = True"
| "is_function_result c = False"

text \<open>
  The top level of the script. \<^verbatim>\<open>printName.bind\<close> is the built-in; \<^verbatim>\<open>printName.mybind\<close>
  is found on \<^verbatim>\<open>Function.prototype\<close>, where the assignment of line 20 has put it, and a
  function without that property would give \<^verbatim>\<open>undefined\<close>, which cannot be called. The
  two bound functions are called without a receiver. The script has no host function.
\<close>

definition no_host :: hostfn where
  "no_host n this_arg args w = (Normal Undefined, w)"

definition function_method :: "string \<Rightarrow> world \<Rightarrow> jsval" where
  "function_method m w = (case fn_proto w m of None \<Rightarrow> Undefined | Some v \<Rightarrow> v)"

definition run_call :: "completion \<times> world \<times> event list \<Rightarrow> completion \<times> world" where
  "run_call r = (fst r, fst (snd r))"

definition core_script_js :: "world \<Rightarrow> completion \<times> world" where
  "core_script_js w =
     (let w1 = console_log [Str ''Core js fundamental''] w;
          printName = Fun PrintName
      in case native_bind printName [name1] of
           Throw e \<Rightarrow> (Throw e, w1)
         | Normal printMyName \<Rightarrow>
             (case run_call (invoke no_host 0 printMyName Undefined [] w1) of
                (Throw e, w2) \<Rightarrow> (Throw e, w2)
              | (Normal v, w2) \<Rightarrow>
                  (let w3 = w2\<lparr>fn_proto := (fn_proto w2)(''mybind'' \<mapsto> Fun MyBind)\<rparr>
                   in case run_call (invoke no_host 0 (function_method ''mybind'' w3) printName
                               [name1, Str ''joynager''] w3) of
                        (Throw e, w4) \<Rightarrow> (Throw e, w4)
                      | (Normal printMyName2, w4) \<Rightarrow>
                          run_call (invoke no_host 0 printMyName2 Undefined [] w4))))"

definition personInfo :: jsval where
  "personInfo = Obj [(''name'', Str ''ayan''), (''age'', Num 25), (''objItself'', Fun ObjItself)]"

text \<open>
  The top level of the script on \<^verbatim>\<open>this\<close>. The script is a classic script, so its
  function declaration \<^verbatim>\<open>function Person\<close> is bound before the first statement runs and
  is a property of the global object. \<^verbatim>\<open>this.name = "sarah"\<close> writes another property of
  the global object, which \<^verbatim>\<open>window.name\<close> reads back. The bindings made with
  \<^verbatim>\<open>let\<close>, \<^verbatim>\<open>const\<close> and \<^verbatim>\<open>class\<close> (\<^verbatim>\<open>a\<close>, \<^verbatim>\<open>greet\<close>, \<^verbatim>\<open>person1\<close>, \<^verbatim>\<open>personInfo\<close>,
  \<^verbatim>\<open>Client\<close>, \<^verbatim>\<open>newContract\<close>) are no properties of the global object and are the local
  names below. In \<^verbatim>\<open>new Person(...)\<close> the identifier names the function the declaration
  has bound.
\<close>

definition this_js :: "world \<Rightarrow> completion \<times> world" where
  "this_js w =
     (let w0 = assign_global ''Person'' (Fun Person) w;
          w1 = console_log [Str ''this keyWord''] w0;
          a = top_level_this;
          w2 = assign_global ''name'' (Str ''sarah'') w1;
          w3 = console_log [get_prop window ''name'' w2] w2;
          w4 = console_log [Bool (top_level_this = window)] w3;
          w5 = greet w4;
          w6 = console_log [Str ''________________''] w5;
          created = new_Person (Str ''pijush'') w6;
          person1 = fst created;
          w7 = console_log [Str (rocket @ '' ~  person1 ''), person1] (snd created);
          second = new_Person (Str ''shubho'') w7;
          w8 = console_log [Str (rocket @ '' ''), fst second] (snd second)
      in case run_call (invoke no_host 0 (get_prop personInfo ''objItself'' w8) personInfo [] w8) of
           (Throw e, w9) \<Rightarrow> (Throw e, w9)
         | (Normal v, w9) \<Rightarrow>
             (let w10 = console_log [Str ''________________''] w9;
                  w11 = console_log [Str ''________________''] w10;
                  newContract = new_Client
              in case sayWelcome newContract w11 of
                   (welcomed, c, w12) \<Rightarrow>
                     (Normal Undefined,
                      console_log
                        [Str (rocket @ '' ~ file: script.js:64 ~ newContract''), welcomed] w12)))"

section \<open>Promises, timers and the event loop\<close>

text \<open>
  The part of the language's promise machinery that \<^verbatim>\<open>AsyncPromisse/asyncPromise.js\<close>
  uses. \<^verbatim>\<open>new Promise\<close> adds a pending promise. Settling a pending promise stores its
  state and moves its reactions to the microtask queue; settling a settled promise does
  nothing. The values the script settles with are a text and an error object, never a
  promise, so resolving is fulfilling.
\<close>

definition new_promise :: "world \<Rightarrow> nat \<times> world" where
  "new_promise w =
     (length (promises w),
      w\<lparr>promises := promises w @ [\<lparr>pstate = Pending, reactions = []\<rparr>]\<rparr>)"


definition settle :: "nat \<Rightarrow> pstate \<Rightarrow> world \<Rightarrow> world" where
  "settle p st w =
     (if p < length (promises w) \<and> pstate (promises w ! p) = Pending
      then w\<lparr>promises := (promises w)[p := \<lparr>pstate = st, reactions = []\<rparr>],
             microtasks := microtasks w @ map (\<lambda>r. ReactionJob r st) (reactions (promises w ! p))\<rparr>
      else w)"

text \<open>The functions \<^verbatim>\<open>resolve\<close> and \<^verbatim>\<open>reject\<close> that the executor of promise \<open>p\<close> receives.\<close>

definition resolve_call :: "nat \<Rightarrow> jsval \<Rightarrow> world \<Rightarrow> world" where
  "resolve_call p v w = settle p (Fulfilled v) (w\<lparr>history := history w @ [CalledResolve p v]\<rparr>)"

definition reject_call :: "nat \<Rightarrow> jsval \<Rightarrow> world \<Rightarrow> world" where
  "reject_call p e w = settle p (Rejected e) (w\<lparr>history := history w @ [CalledReject p e]\<rparr>)"

text \<open>
  \<^verbatim>\<open>p.then(onFulfilled, onRejected)\<close> makes a new promise and a reaction for it: the
  reaction waits on \<open>p\<close> while \<open>p\<close> is pending and is queued at once when \<open>p\<close> has settled.
  A promise is named by its place in the list of promises; a number that names none, which
  no script can hold, gets no reaction.
  \<^verbatim>\<open>p.catch(onRejected)\<close> is \<^verbatim>\<open>p.then(undefined, onRejected)\<close>.
\<close>

definition then_js :: "nat \<Rightarrow> handler option \<Rightarrow> handler option \<Rightarrow> world \<Rightarrow> nat \<times> world" where
  "then_js p on_fulfilled on_rejected w =
     (case new_promise w of
        (q, w1) \<Rightarrow>
          (let r = Reaction on_fulfilled on_rejected q
           in if p < length (promises w1)
              then (let source = promises w1 ! p
                    in (q, case pstate source of
                             Pending \<Rightarrow>
                               w1\<lparr>promises :=
                                    (promises w1)[p := source\<lparr>reactions := reactions source @ [r]\<rparr>]\<rparr>
                           | Fulfilled v \<Rightarrow>
                               w1\<lparr>microtasks := microtasks w1 @ [ReactionJob r (Fulfilled v)]\<rparr>
                           | Rejected e \<Rightarrow>
                               w1\<lparr>microtasks := microtasks w1 @ [ReactionJob r (Rejected e)]\<rparr>))
              else (q, w1)))"

definition catch_js :: "nat \<Rightarrow> handler \<Rightarrow> world \<Rightarrow> nat \<times> world" where
  "catch_js p on_rejected w = then_js p None (Some on_rejected) w"

text \<open>
  The two handlers of the script:
  \<^verbatim>\<open>(res) => { console.log(res); }\<close> and
  \<^verbatim>\<open>(err) => { console.log(err); console.error(err); }\<close>.
\<close>

fun run_handler :: "handler \<Rightarrow> jsval \<Rightarrow> world \<Rightarrow> completion \<times> world" where
  "run_handler LogResult res w =
     (Normal Undefined, console_log [res] (w\<lparr>history := history w @ [RanHandler LogResult res]\<rparr>))"
| "run_handler LogError err w =
     (Normal Undefined,
      console_error [err]
        (console_log [err] (w\<lparr>history := history w @ [RanHandler LogError err]\<rparr>)))"

text \<open>
  A job runs the handler that matches the settled state and settles the promise of the
  reaction with what the handler returns or throws; without a handler the state is passed on.
\<close>

fun finish_job :: "nat \<Rightarrow> completion \<times> world \<Rightarrow> world" where
  "finish_job q (Normal v, w) = settle q (Fulfilled v) w"
| "finish_job q (Throw e, w) = settle q (Rejected e) w"

fun run_job :: "job \<Rightarrow> world \<Rightarrow> world" where
  "run_job (ReactionJob (Reaction on_fulfilled on_rejected q) Pending) w = w"
| "run_job (ReactionJob (Reaction on_fulfilled on_rejected q) (Fulfilled v)) w =
     (case on_fulfilled of
        None \<Rightarrow> settle q (Fulfilled v) w
      | Some h \<Rightarrow> finish_job q (run_handler h v w))"
| "run_job (ReactionJob (Reaction on_fulfilled on_rejected q) (Rejected e)) w =
     (case on_rejected of
        None \<Rightarrow> settle q (Rejected e) w
      | Some h \<Rightarrow> finish_job q (run_handler h e w))"

text \<open>\<^verbatim>\<open>setTimeout(task, delay)\<close>: the timer is due \<open>delay\<close> milliseconds from now and
  fires after the timers that are due no later.\<close>

fun insert_timer :: "nat \<times> task \<Rightarrow> (nat \<times> task) list \<Rightarrow> (nat \<times> task) list" where
  "insert_timer t [] = [t]"
| "insert_timer t (u # us) = (if fst t < fst u then t # u # us else u # insert_timer t us)"

definition set_timeout :: "task \<Rightarrow> nat \<Rightarrow> world \<Rightarrow> world" where
  "set_timeout t delay w = w\<lparr>timers := insert_timer (clock w + delay, t) (timers w)\<rparr>"

text \<open>Whether a value counts as true in a condition.\<close>

fun truthy :: "jsval \<Rightarrow> bool" where
  "truthy Undefined = False"
| "truthy Null = False"
| "truthy (Bool b) = b"
| "truthy (Num n) = (n \<noteq> 0)"
| "truthy (Str s) = (s \<noteq> [])"
| "truthy v = True"

text \<open>
  The callback of the timer (lines 71 to 75):
  \<^verbatim>\<open>
  const result = 0;
  if (result) resolve("promise met succesfully");
  else reject(new Error("why't promise succesfull!"))
  \<close>
\<close>

definition rejection :: jsval where
  "rejection = ErrorObj ''why't promise succesfull!''"

fun run_task :: "task \<Rightarrow> world \<Rightarrow> world" where
  "run_task (SettleSub p) w =
     (let result = Num 0
      in if truthy result then resolve_call p (Str ''promise met succesfully'') w
         else reject_call p rejection w)"

text \<open>
  One turn of the event loop: the first microtask if there is one, otherwise the timer
  that is due first, with the clock moved to its time; a page with neither is at rest.
\<close>

definition step :: "world \<Rightarrow> world" where
  "step w =
     (case microtasks w of
        j # js \<Rightarrow> run_job j (w\<lparr>microtasks := js\<rparr>)
      | [] \<Rightarrow>
          (case timers w of
             [] \<Rightarrow> w
           | (due, t) # ts \<Rightarrow> run_task t (w\<lparr>timers := ts, clock := max (clock w) due\<rparr>)))"

definition at_rest :: "world \<Rightarrow> bool" where
  "at_rest w = (microtasks w = [] \<and> timers w = [])"

text \<open>
  The top level of \<^verbatim>\<open>asyncPromise.js\<close> (lines 9 to 93): six lines on the console, the
  promise \<^verbatim>\<open>sub\<close> whose executor starts the timer of 3000 ms, the chain
  \<^verbatim>\<open>sub.then(...).catch(...)\<close>, and a last line. The result names \<^verbatim>\<open>sub\<close>.
\<close>

definition asyncPromise_js :: "world \<Rightarrow> nat \<times> world" where
  "asyncPromise_js w =
     (let w1 = console_log [Str ''ex:2''] w;
          w2 = console_log [Str ''start syn code''] w1;
          w3 = console_log [Str ''Syn--Promises in JavaScript''] w2;
          w4 = console_log [Str ''end syn code''] w3;
          w5 = console_log [Str ''ex:2''] w4;
          w6 = console_log [Str ''start Promises code''] w5
      in case new_promise w6 of
           (sub, w7) \<Rightarrow>
             (let w8 = set_timeout (SettleSub sub) 3000 w7
              in case then_js sub (Some LogResult) None w8 of
                   (chained, w9) \<Rightarrow>
                     (case catch_js chained LogError w9 of
                        (caught, w10) \<Rightarrow> (sub, console_log [Str ''end Promises code''] w10))))"

text \<open>The promise \<^verbatim>\<open>sub\<close> of a run of the script from the page \<open>w\<close>, the page when the top
  level has ended, and the page after \<open>n\<close> turns of the event loop.\<close>

definition sub :: "world \<Rightarrow> nat" where
  "sub w = fst (asyncPromise_js w)"

definition after_top_level :: "world \<Rightarrow> world" where
  "after_top_level w = snd (asyncPromise_js w)"

definition after_turns :: "nat \<Rightarrow> world \<Rightarrow> world" where
  "after_turns n w = (step ^^ n) (after_top_level w)"

section \<open>The files of the repository\<close>

text \<open>
  The five scripts and the Markdown notes, which have nothing to evaluate. A file is
  evaluated by running its top level and then the event loop for a number of turns.
  The scripts are classic browser scripts: one page, one global object.
\<close>

datatype source_file = CoreScript | AsyncPromise | ThisKeyword | ArrayScript | DateScript | Notes

fun top_level :: "source_file \<Rightarrow> world \<Rightarrow> completion \<times> world" where
  "top_level CoreScript w = core_script_js w"
| "top_level AsyncPromise w = (Normal Undefined, snd (asyncPromise_js w))"
| "top_level ThisKeyword w = this_js w"
| "top_level ArrayScript w = (Normal Undefined, array_js w)"
| "top_level DateScript w = (Normal Undefined, date_js w)"
| "top_level Notes w = (Normal Undefined, w)"

definition evaluate :: "nat \<Rightarrow> source_file \<Rightarrow> world \<Rightarrow> completion \<times> world" where
  "evaluate turns f w = (case top_level f w of (c, w') \<Rightarrow> (c, (step ^^ turns) w'))"

text \<open>What a file is seen to do from a given page: how its top level ends, and the
  entries it adds to the console.\<close>

definition output_of :: "nat \<Rightarrow> source_file \<Rightarrow> world \<Rightarrow> completion \<times> (channel \<times> jsval list) list" where
  "output_of turns f w =
     (case evaluate turns f w of
        (c, w') \<Rightarrow> (c, drop (length (console w)) (console w')))"

text \<open>The page after a list of files has been evaluated, one after the other.\<close>

definition evaluate_all :: "nat \<Rightarrow> source_file list \<Rightarrow> world \<Rightarrow> world" where
  "evaluate_all turns fs w = foldl (\<lambda>page f. snd (evaluate turns f page)) w fs"

section \<open>Properties of the hand-written bind\<close>

lemma call_trace_shape:
  "\<exists>rest. calls_of (call tbl d f t a w) = Invoke d f t a # rest \<and>
      (\<forall>e \<in> set rest. Suc d \<le> event_depth e)"
  by (induction tbl d f t a w rule: call.induct)
     (auto simp: calls_of_def Let_def split: prod.splits intro: Suc_leD)

lemma direct_calls_Cons:
  "direct_calls d (Invoke d' f t a # tr) =
     (if d' = Suc d then Invoke d' f t a # direct_calls d tr else direct_calls d tr)"
  by (simp add: direct_calls_def)

lemma direct_calls_deeper:
  "\<forall>e \<in> set tr. Suc (Suc d) \<le> event_depth e \<Longrightarrow> direct_calls d tr = []"
  by (induction tr) (auto simp: direct_calls_def)

lemma direct_calls_of_call:
  "direct_calls d (calls_of (call tbl (Suc d) f t a w)) = [Invoke (Suc d) f t a]"
proof -
  obtain rest where r: "calls_of (call tbl (Suc d) f t a w) = Invoke (Suc d) f t a # rest"
    and deep: "\<forall>e \<in> set rest. Suc (Suc d) \<le> event_depth e"
    using call_trace_shape by blast
  have "direct_calls d rest = []"
    using deep by (rule direct_calls_deeper)
  then show ?thesis
    using r by (simp add: direct_calls_Cons)
qed

lemma mybound_calls:
  "calls_of (call tbl d (MyBound (Fun f) captured) t a w) =
     Invoke d (MyBound (Fun f) captured) t a #
       calls_of (call tbl (Suc d) f (index_js captured 0) []
                   (console_log [index_js captured 0] w))"
  by (simp add: calls_of_def Let_def split: prod.splits)

lemma mybound_world:
  "world_of (call tbl d (MyBound (Fun f) captured) t a w) =
     world_of (call tbl (Suc d) f (index_js captured 0) []
                 (console_log [index_js captured 0] w))"
  by (simp add: world_of_def Let_def split: prod.splits)

lemma mybound_outcome:
  "outcome_of (call tbl d (MyBound (Fun f) captured) t a w) =
     discard_result (outcome_of (call tbl (Suc d) f (index_js captured 0) []
        (console_log [index_js captured 0] w)))"
  by (simp add: outcome_of_def Let_def split: prod.splits)

lemma slice_from_1: "slice_js 1 xs = drop 1 xs"
  by (cases xs) (simp_all add: slice_js_def Let_def min_def)

lemma params_after_assignment:
  "read_identifier ''params'' (assign_global ''params'' v w) = Normal v"
  by (simp add: read_identifier_def assign_global_def)

lemma mybind_result:
  "mybind this_arg args w =
     (Normal (Fun (MyBound (sloppy_this this_arg) args)),
      console_log [Str ''object'']
        (console_log [Arr (drop 1 args)] (assign_global ''params'' (Arr (drop 1 args)) w)))"
proof -
  have r: "read_identifier ''params'' (assign_global ''params'' (Arr (drop 1 args)) w)
             = Normal (Arr (drop 1 args))"
    by (rule params_after_assignment)
  show ?thesis
    unfolding mybind_def Let_def slice_from_1 r
    by (simp add: typeof_identifier_def console_log_def assign_global_def)
qed

text \<open>
  C1. For every function \<open>f\<close> and receiver \<open>r\<close>, \<open>f.mybind(r, ...extras)\<close> returns the
  inner function that has captured \<open>f\<close> and the arguments; a call of that function, with
  any receiver and arguments of its own, makes exactly one call from its body, which is
  a call of \<open>f\<close> with \<^verbatim>\<open>this\<close> set to \<open>r\<close>, and it leaves the page as that one call of \<open>f\<close>
  leaves it after \<open>r\<close> was logged. For a function of the host program, whose behaviour
  is its entry \<open>tbl n\<close> of the table, this is said of the entry itself: the page after the
  call is the page that one run of \<open>tbl n\<close> with \<^verbatim>\<open>this\<close> set to \<open>r\<close> and no argument
  makes of the page on which \<open>r\<close> was logged, and the call throws what that run throws
  and returns \<^verbatim>\<open>undefined\<close> otherwise.
\<close>

theorem mybind_calls_original_once:
  "fst (mybind (Fun f) (r # extras) w0) = Normal (Fun (MyBound (Fun f) (r # extras)))
   \<and> direct_calls d
        (calls_of (invoke tbl d (Fun (MyBound (Fun f) (r # extras))) this_arg args w))
       = [Invoke (Suc d) f r []]
   \<and> world_of (invoke tbl d (Fun (MyBound (Fun f) (r # extras))) this_arg args w)
       = world_of (call tbl (Suc d) f r [] (console_log [r] w))
   \<and> world_of (invoke tbl d (Fun (MyBound (Fun (Host n)) (r # extras))) this_arg args w)
       = snd (tbl n r [] (console_log [r] w))
   \<and> outcome_of (invoke tbl d (Fun (MyBound (Fun (Host n)) (r # extras))) this_arg args w)
       = discard_result (fst (tbl n r [] (console_log [r] w)))"
proof -
  have i: "index_js (r # extras) 0 = r"
    by (simp add: index_js_def)
  have "fst (mybind (Fun f) (r # extras) w0) = Normal (Fun (MyBound (Fun f) (r # extras)))"
    by (simp add: mybind_result)
  moreover have "direct_calls d
        (calls_of (invoke tbl d (Fun (MyBound (Fun f) (r # extras))) this_arg args w))
       = [Invoke (Suc d) f r []]"
    unfolding invoke.simps mybound_calls i
    by (simp add: direct_calls_Cons direct_calls_of_call)
  moreover have "world_of (invoke tbl d (Fun (MyBound (Fun f) (r # extras))) this_arg args w)
       = world_of (call tbl (Suc d) f r [] (console_log [r] w))"
    unfolding invoke.simps mybound_world i ..
  moreover have "world_of (invoke tbl d (Fun (MyBound (Fun (Host n)) (r # extras))) this_arg args w)
       = snd (tbl n r [] (console_log [r] w))"
    unfolding invoke.simps mybound_world i
    by (simp add: world_of_def split: prod.splits)
  moreover have "outcome_of (invoke tbl d (Fun (MyBound (Fun (Host n)) (r # extras))) this_arg args w)
       = discard_result (fst (tbl n r [] (console_log [r] w)))"
    unfolding invoke.simps mybound_outcome i
    by (simp add: outcome_of_def split: prod.splits)
  ultimately show ?thesis
    by blast
qed

theorem mybind_calls_original_once_witness:
  "direct_calls 0
     (calls_of (invoke announce 0 (Fun (MyBound (Fun (Host 0)) [name1, Str ''joynager'']))
        Undefined [Num 7] empty_world))
     = [Invoke 1 (Host 0) name1 []]
   \<and> console
        (world_of (invoke announce 0 (Fun (MyBound (Fun (Host 0)) [name1, Str ''joynager'']))
           Undefined [Num 7] empty_world))
     = [(Log, [name1]), (Log, [Str ''called'', name1, Arr []])]
   \<and> outcome_of (invoke announce 0 (Fun (MyBound (Fun (Host 0)) [name1, Str ''joynager'']))
        Undefined [Num 7] empty_world)
     = Normal Undefined"
  using mybind_calls_original_once
    [of "Host 0" name1 "[Str ''joynager'']" empty_world 0 announce Undefined "[Num 7]"
       empty_world 0]
  by (simp add: announce_def console_log_def empty_world_def index_js_def world_of_def
        outcome_of_def calls_of_def direct_calls_def)

text \<open>
  C2. The function returned by \<open>f.mybind(r, ...extras)\<close> forwards no argument to \<open>f\<close>:
  whatever was given when binding and whatever is given when calling, the one call its
  body makes has the empty argument list, and the outcome and the page after the call are
  those of the function bound with \<open>r\<close> alone and called with no argument.
\<close>

theorem mybind_forwards_no_arguments:
  "fst (mybind (Fun f) (r # extras) w0) = Normal (Fun (MyBound (Fun f) (r # extras)))
   \<and> map event_args
        (direct_calls d
          (calls_of (invoke tbl d (Fun (MyBound (Fun f) (r # extras))) this_arg args w)))
       = [[]]
   \<and> outcome_of (invoke tbl d (Fun (MyBound (Fun f) (r # extras))) this_arg args w)
       = outcome_of (invoke tbl d (Fun (MyBound (Fun f) [r])) this_arg' [] w)
   \<and> world_of (invoke tbl d (Fun (MyBound (Fun f) (r # extras))) this_arg args w)
       = world_of (invoke tbl d (Fun (MyBound (Fun f) [r])) this_arg' [] w)"
proof -
  have i: "index_js (r # extras) 0 = r" "index_js [r] 0 = r"
    by (simp_all add: index_js_def)
  have "fst (mybind (Fun f) (r # extras) w0) = Normal (Fun (MyBound (Fun f) (r # extras)))"
    by (simp add: mybind_result)
  moreover have "map event_args
        (direct_calls d
          (calls_of (invoke tbl d (Fun (MyBound (Fun f) (r # extras))) this_arg args w)))
       = [[]]"
    unfolding invoke.simps mybound_calls i
    by (simp add: direct_calls_Cons direct_calls_of_call)
  moreover have "outcome_of (invoke tbl d (Fun (MyBound (Fun f) (r # extras))) this_arg args w)
       = outcome_of (invoke tbl d (Fun (MyBound (Fun f) [r])) this_arg' [] w)"
    unfolding invoke.simps mybound_outcome i ..
  moreover have "world_of (invoke tbl d (Fun (MyBound (Fun f) (r # extras))) this_arg args w)
       = world_of (invoke tbl d (Fun (MyBound (Fun f) [r])) this_arg' [] w)"
    unfolding invoke.simps mybound_world i ..
  ultimately show ?thesis
    by blast
qed

theorem mybind_forwards_no_arguments_witness:
  "outcome_of (invoke first_argument 0 (Fun (MyBound (Fun (Host 0)) [name1, Str ''joynager'']))
      Undefined [Num 7] empty_world)
   = outcome_of (invoke first_argument 0 (Fun (MyBound (Fun (Host 0)) [name1]))
      Undefined [] empty_world)"
  using mybind_forwards_no_arguments
    [of "Host 0" name1 "[Str ''joynager'']" empty_world 0 first_argument Undefined "[Num 7]"
       empty_world Undefined]
  by simp

text \<open>
  C3 (the code departs from it). \<open>mybind\<close> is not equivalent to the built-in
  \<^verbatim>\<open>bind\<close>: for \<^verbatim>\<open>function (x) { return x }\<close> bound to \<^verbatim>\<open>name1\<close> with the argument
  \<^verbatim>\<open>"joynager"\<close>, the function made by \<^verbatim>\<open>bind\<close> calls the original with that argument and
  returns \<^verbatim>\<open>"joynager"\<close> without touching the console, while the function made by
  \<open>mybind\<close> calls it with no argument, returns \<^verbatim>\<open>undefined\<close> and logs the receiver; and
  \<open>mybind\<close> itself has logged twice and created the global \<^verbatim>\<open>params\<close>.
\<close>

theorem mybind_differs_from_bind:
  "fst (mybind (Fun (Host 0)) [name1, Str ''joynager''] empty_world)
     = Normal (Fun (MyBound (Fun (Host 0)) [name1, Str ''joynager'']))
   \<and> native_bind (Fun (Host 0)) [name1, Str ''joynager'']
     = Normal (Fun (NativeBound (Host 0) name1 [Str ''joynager'']))
   \<and> invoke first_argument 0 (Fun (MyBound (Fun (Host 0)) [name1, Str ''joynager'']))
       Undefined [] empty_world
     = (Normal Undefined, console_log [name1] empty_world,
        [Invoke 0 (MyBound (Fun (Host 0)) [name1, Str ''joynager'']) Undefined [],
         Invoke 1 (Host 0) name1 []])
   \<and> invoke first_argument 0 (Fun (NativeBound (Host 0) name1 [Str ''joynager'']))
       Undefined [] empty_world
     = (Normal (Str ''joynager''), empty_world,
        [Invoke 0 (NativeBound (Host 0) name1 [Str ''joynager'']) Undefined [],
         Invoke 1 (Host 0) name1 [Str ''joynager'']])
   \<and> console (snd (mybind (Fun (Host 0)) [name1, Str ''joynager''] empty_world))
     = [(Log, [Arr [Str ''joynager'']]), (Log, [Str ''object''])]
   \<and> globals (snd (mybind (Fun (Host 0)) [name1, Str ''joynager''] empty_world)) ''params''
     = Some (Arr [Str ''joynager''])"
  by (simp add: mybind_result first_argument_def index_js_def console_log_def assign_global_def
        empty_world_def)

text \<open>
  C5. \<open>mybind\<close> has one path and no error handling: for every receiver and every list
  of arguments, the empty list too, it does not throw and returns a function, and what
  it does to the page is the same three steps whatever the arguments are.
\<close>

theorem mybind_never_throws:
  "is_function_result (fst (mybind this_arg args w))
   \<and> is_function_result (fst (mybind this_arg [] w))
   \<and> outcome_of (call tbl d MyBind this_arg args w)
       = Normal (Fun (MyBound (sloppy_this this_arg) args))
   \<and> world_of (call tbl d MyBind this_arg args w)
       = console_log [Str ''object'']
           (console_log [Arr (drop 1 args)]
             (assign_global ''params'' (Arr (drop 1 args)) w))"
  by (simp add: mybind_result outcome_of_def world_of_def)

theorem mybind_never_throws_witness:
  "is_function_result (fst (mybind (Fun PrintName) [] empty_world))
   \<and> outcome_of (call no_host 0 MyBind (Fun PrintName) [] empty_world)
       = Normal (Fun (MyBound (Fun PrintName) []))"
  using mybind_never_throws [of "Fun PrintName" "[]" empty_world no_host 0]
  by simp

section \<open>Properties of the class \<^verbatim>\<open>Client\<close>\<close>

lemma repeated_get_constant: "repeated_get n c = replicate n (clientId c)"
  by (induction n) (simp_all add: getClientId_def)

text \<open>
  C8. A new \<^verbatim>\<open>Client\<close> answers \<^verbatim>\<open>getClientId()\<close> with \<^verbatim>\<open>"124"\<close>. For every value \<open>v\<close>
  and every instance, \<^verbatim>\<open>changeClientId(v)\<close> returns \<open>v\<close>, and each of any number of calls
  of \<^verbatim>\<open>getClientId()\<close> that follow returns \<open>v\<close>, the instance staying as the change left it.
\<close>

theorem client_round_trip:
  "fst (getClientId new_Client) = Str ''124''
   \<and> fst (changeClientId v c) = v
   \<and> repeated_get n (snd (changeClientId v c)) = replicate n v
   \<and> snd (getClientId (snd (changeClientId v c))) = snd (changeClientId v c)"
  by (simp add: repeated_get_constant getClientId_def changeClientId_def new_Client_def)

theorem client_round_trip_witness:
  "fst (changeClientId (Num 7) new_Client) = Num 7
   \<and> repeated_get 3 (snd (changeClientId (Num 7) new_Client)) = [Num 7, Num 7, Num 7]"
  using client_round_trip [of "Num 7" new_Client 3]
  by (simp add: numeral_3_eq_3)

section \<open>Properties of the array snippets\<close>

lemma above_10_list:
  "above_10 (Num 1) = False" "above_10 (Str ''13'') = True" "above_10 (Num 13) = True"
  by (simp_all add: above_10_def greater_js_def string_to_number_def trim_js_def is_blank_def
        unsigned_number_def is_digit_def digits_value_def digit_value_def)

lemma above_100_list:
  "above_100 (Num 1) = False" "above_100 (Str ''13'') = False" "above_100 (Num 13) = False"
  "above_100 (Num 22) = False" "above_100 (Num 32) = False"
  by (simp_all add: above_100_def greater_js_def string_to_number_def trim_js_def is_blank_def
        unsigned_number_def is_digit_def digits_value_def digit_value_def)

text \<open>
  C9. On the list \<^verbatim>\<open>[1, "13", 13, 22, 32, 22]\<close>, \<^verbatim>\<open>find(ele => ele > 10)\<close> is the text
  \<^verbatim>\<open>"13"\<close> and not the number 13, \<^verbatim>\<open>findIndex\<close> with the same test is 1, and
  \<^verbatim>\<open>findIndex(ele => ele > 100)\<close> is -1, no element passing that test.
\<close>

theorem find_on_list:
  "find_js above_10 list_literal = Str ''13''
   \<and> find_js above_10 list_literal \<noteq> Num 13
   \<and> findIndex_js above_10 list_literal = 1
   \<and> findIndex_js above_100 list_literal = - 1
   \<and> filter above_100 list_literal = []"
  by (simp add: list_literal_def findIndex_js_def above_10_list above_100_list)

lemma flat_zero: "flat_js 0 xs = xs"
  by (induction "0::nat" xs rule: flat_js.induct) simp_all

lemma flat_one_level: "flat_js 1 xs = concat (map one_level xs)"
  by (induction "1::nat" xs rule: flat_js.induct) (simp_all add: flat_zero)

text \<open>
  C10. \<^verbatim>\<open>flat()\<close> removes exactly one level of nesting: of any array it keeps the
  elements that are not arrays and puts the elements of those that are in their place.
  On \<^verbatim>\<open>[1, 2, 3, [4, 5, [6, 7, [8, 9, [10]]]]]\<close> that is
  \<^verbatim>\<open>[1, 2, 3, 4, 5, [6, 7, [8, 9, [10]]]]\<close>, and \<^verbatim>\<open>flat(999)\<close> of the same array is
  the flat array of 1 to 10.
\<close>

theorem flat_on_arr:
  "flat_default xs = concat (map one_level xs)
   \<and> flat_default arr
       = [Num 1, Num 2, Num 3, Num 4, Num 5, Arr [Num 6, Num 7, Arr [Num 8, Num 9, Arr [Num 10]]]]
   \<and> flat_js 999 arr
       = [Num 1, Num 2, Num 3, Num 4, Num 5, Num 6, Num 7, Num 8, Num 9, Num 10]"
proof -
  have "flat_default xs = concat (map one_level xs)"
    unfolding flat_default_def by (rule flat_one_level)
  moreover have "flat_default arr
       = [Num 1, Num 2, Num 3, Num 4, Num 5, Arr [Num 6, Num 7, Arr [Num 8, Num 9, Arr [Num 10]]]]"
    by (simp add: flat_default_def arr_def)
  moreover have "flat_js 999 arr
       = [Num 1, Num 2, Num 3, Num 4, Num 5, Num 6, Num 7, Num 8, Num 9, Num 10]"
    by (simp add: arr_def)
  ultimately show ?thesis
    by blast
qed

theorem flat_on_arr_witness:
  "flat_default [Arr [Num 4, Arr [Num 6]], Num 1] = [Num 4, Arr [Num 6], Num 1]"
  using flat_on_arr [of "[Arr [Num 4, Arr [Num 6]], Num 1]"]
  by simp

section \<open>Properties of the promise of \<^verbatim>\<open>asyncPromise.js\<close>\<close>

lemma step_at_rest: "at_rest w \<Longrightarrow> step w = w"
  by (simp add: at_rest_def step_def)

lemma steps_at_rest: "at_rest w \<Longrightarrow> (step ^^ n) w = w"
  by (induction n) (simp_all add: step_at_rest)


lemma after_top_level_eq:
  "at_rest w \<Longrightarrow>
   asyncPromise_js w =
     (length (promises w),
      w\<lparr>timers := [(clock w + 3000, SettleSub (length (promises w)))],
        promises :=
          promises w @
            [\<lparr>pstate = Pending,
               reactions = [Reaction (Some LogResult) None (Suc (length (promises w)))]\<rparr>,
             \<lparr>pstate = Pending,
               reactions = [Reaction None (Some LogError) (Suc (Suc (length (promises w))))]\<rparr>,
             \<lparr>pstate = Pending, reactions = []\<rparr>],
        console :=
          console w @
            [(Log, [Str ''ex:2'']), (Log, [Str ''start syn code'']),
             (Log, [Str ''Syn--Promises in JavaScript'']), (Log, [Str ''end syn code'']),
             (Log, [Str ''ex:2'']), (Log, [Str ''start Promises code'']),
             (Log, [Str ''end Promises code''])]\<rparr>)"
  by (simp add: asyncPromise_js_def Let_def new_promise_def set_timeout_def then_js_def
        catch_js_def console_log_def at_rest_def nth_append list_update_append
        split: prod.splits)

lemma three_turns:
  "at_rest w \<Longrightarrow>
   step (step (step (snd (asyncPromise_js w)))) =
     w\<lparr>timers := [], clock := clock w + 3000,
       history := history w @ [CalledReject (length (promises w)) rejection,
                               RanHandler LogError rejection],
       console :=
         console w @
           [(Log, [Str ''ex:2'']), (Log, [Str ''start syn code'']),
            (Log, [Str ''Syn--Promises in JavaScript'']), (Log, [Str ''end syn code'']),
            (Log, [Str ''ex:2'']), (Log, [Str ''start Promises code'']),
            (Log, [Str ''end Promises code'']), (Log, [rejection]), (Err, [rejection])],
       promises :=
         promises w @
           [\<lparr>pstate = Rejected rejection, reactions = []\<rparr>,
            \<lparr>pstate = Rejected rejection, reactions = []\<rparr>,
            \<lparr>pstate = Fulfilled Undefined, reactions = []\<rparr>]\<rparr>"
  by (simp add: after_top_level_eq at_rest_def step_def reject_call_def settle_def
        console_log_def console_error_def nth_append list_update_append max_def)

lemma enough_turns:
  assumes "at_rest w" and "3 \<le> n"
  shows "after_turns n w = step (step (step (snd (asyncPromise_js w))))"
proof -
  obtain k where n: "n = k + 3"
    using assms(2) by (metis le_add_diff_inverse2)
  have rest: "at_rest (step (step (step (snd (asyncPromise_js w)))))"
    using assms(1) by (simp add: three_turns) (simp add: at_rest_def)
  have "after_turns n w = (step ^^ k) ((step ^^ 3) (snd (asyncPromise_js w)))"
    by (simp add: after_turns_def after_top_level_def n funpow_add)
  also have "(step ^^ 3) (snd (asyncPromise_js w)) = step (step (step (snd (asyncPromise_js w))))"
    by (simp add: numeral_3_eq_3)
  finally show ?thesis
    using rest by (simp add: steps_at_rest)
qed



section \<open>What the files do to the global state, and to each other\<close>

lemma settle_frame:
  "globals (settle p st w) = globals w" "fn_proto (settle p st w) = fn_proto w"
  by (simp_all add: settle_def)

lemma run_handler_frame:
  "globals (snd (run_handler h v w)) = globals w" "fn_proto (snd (run_handler h v w)) = fn_proto w"
  by (cases h; simp add: console_log_def console_error_def)+

lemma finish_job_frame:
  "globals (finish_job q r) = globals (snd r)" "fn_proto (finish_job q r) = fn_proto (snd r)"
  by (cases "(q, r)" rule: finish_job.cases; simp add: settle_frame)+

lemma run_job_frame:
  "globals (run_job j w) = globals w" "fn_proto (run_job j w) = fn_proto w"
  by (cases "(j, w)" rule: run_job.cases;
      simp add: settle_frame finish_job_frame run_handler_frame split: option.splits)+

lemma run_task_frame:
  "globals (run_task t w) = globals w" "fn_proto (run_task t w) = fn_proto w"
  by (cases t; simp add: reject_call_def settle_frame)+

lemma step_frame:
  "globals (step w) = globals w" "fn_proto (step w) = fn_proto w"
  by (simp_all add: step_def run_job_frame run_task_frame split: list.splits prod.splits)

lemma steps_frame:
  "globals ((step ^^ n) w) = globals w" "fn_proto ((step ^^ n) w) = fn_proto w"
  by (induction n) (simp_all add: step_frame)

lemma then_js_frame:
  "globals (snd (then_js p f r w)) = globals w" "fn_proto (snd (then_js p f r w)) = fn_proto w"
  by (simp_all add: then_js_def new_promise_def Let_def split: pstate.splits)

lemma asyncPromise_js_frame:
  "globals (snd (asyncPromise_js w)) = globals w" "fn_proto (snd (asyncPromise_js w)) = fn_proto w"
  by (simp_all add: asyncPromise_js_def Let_def catch_js_def then_js_frame console_log_def
        new_promise_def set_timeout_def case_prod_beta)

lemma new_Person_eq:
  "new_Person p w =
     (Obj [(''name'', p)], w\<lparr>console := console w @ [(Log, [Obj [(''name'', p)]])]\<rparr>)"
  by (simp add: new_Person_def Person_body_def console_log_def)

lemma sayWelcome_new:
  "sayWelcome new_Client w =
     (Undefined, new_Client, w\<lparr>console := console w @ [(Log, [Str ''welcome 124''])]\<rparr>)"
  by (simp add: sayWelcome_def getClientId_def new_Client_def concat_js_def console_log_def)

lemma objItself_personInfo:
  "globals w ''name'' = Some v \<Longrightarrow>
   run_call (invoke no_host 0 (get_prop personInfo ''objItself'' w) personInfo [] w) =
     (Normal Undefined,
      w\<lparr>console := console w @
         [(Log, [Str (rocket @ '' ~ file: script.js:35 ~ name''), personInfo]),
          (Log, [Str (rocket @ '' ~ file: script.js:35 ~ name''), Str ''ayan'']),
          (Log, [GlobalThis]),
          (Log, [v])]\<rparr>)"
  by (simp add: run_call_def objItself_def innerFunction_def Let_def console_log_def
        read_identifier_def personInfo_def)

lemma this_js_shape:
  "this_js w =
     (Normal Undefined,
      w\<lparr>globals := (globals w)(''Person'' \<mapsto> Fun Person, ''name'' \<mapsto> Str ''sarah''),
        console := console w @
          [(Log, [Str ''this keyWord'']), (Log, [Str ''sarah'']), (Log, [Bool True]),
           (Log, [GlobalThis]), (Log, [Str ''________________'']),
           (Log, [Obj [(''name'', Str ''pijush'')]]),
           (Log, [Str (rocket @ '' ~  person1 ''), Obj [(''name'', Str ''pijush'')]]),
           (Log, [Obj [(''name'', Str ''shubho'')]]),
           (Log, [Str (rocket @ '' ''), Obj [(''name'', Str ''shubho'')]]),
           (Log, [Str (rocket @ '' ~ file: script.js:35 ~ name''), personInfo]),
           (Log, [Str (rocket @ '' ~ file: script.js:35 ~ name''), Str ''ayan'']),
           (Log, [GlobalThis]), (Log, [Str ''sarah'']),
           (Log, [Str ''________________'']), (Log, [Str ''________________'']),
           (Log, [Str ''welcome 124'']),
           (Log, [Str (rocket @ '' ~ file: script.js:64 ~ newContract''), Undefined])]\<rparr>)"
proof -
  define w8 where "w8 = w\<lparr>globals :=
          (globals w)(''Person'' \<mapsto> Fun Person, ''name'' \<mapsto> Str ''sarah''),
        console := console w @
          [(Log, [Str ''this keyWord'']), (Log, [Str ''sarah'']), (Log, [Bool True]),
           (Log, [GlobalThis]), (Log, [Str ''________________'']),
           (Log, [Obj [(''name'', Str ''pijush'')]]),
           (Log, [Str (rocket @ '' ~  person1 ''), Obj [(''name'', Str ''pijush'')]]),
           (Log, [Obj [(''name'', Str ''shubho'')]]),
           (Log, [Str (rocket @ '' ''), Obj [(''name'', Str ''shubho'')]])]\<rparr>"
  have g: "globals w8 ''name'' = Some (Str ''sarah'')"
    by (simp add: w8_def)
  have "this_js w =
     (case run_call (invoke no_host 0 (get_prop personInfo ''objItself'' w8) personInfo [] w8) of
           (Throw e, w9) \<Rightarrow> (Throw e, w9)
         | (Normal v, w9) \<Rightarrow>
             (let w10 = console_log [Str ''________________''] w9;
                  w11 = console_log [Str ''________________''] w10;
                  newContract = new_Client
              in case sayWelcome newContract w11 of
                   (welcomed, c, w12) \<Rightarrow>
                     (Normal Undefined,
                      console_log
                        [Str (rocket @ '' ~ file: script.js:64 ~ newContract''), welcomed] w12)))"
    unfolding this_js_def w8_def
    by (simp add: Let_def new_Person_eq console_log_def assign_global_def greet_def
          top_level_this_def window_def read_global_def)
  also have "\<dots> = (Normal Undefined,
      w8\<lparr>console := console w8 @
          [(Log, [Str (rocket @ '' ~ file: script.js:35 ~ name''), personInfo]),
           (Log, [Str (rocket @ '' ~ file: script.js:35 ~ name''), Str ''ayan'']),
           (Log, [GlobalThis]), (Log, [Str ''sarah'']),
           (Log, [Str ''________________'']), (Log, [Str ''________________'']),
           (Log, [Str ''welcome 124'']),
           (Log, [Str (rocket @ '' ~ file: script.js:64 ~ newContract''), Undefined])]\<rparr>)"
    unfolding objItself_personInfo [OF g]
    by (simp add: Let_def sayWelcome_new console_log_def)
  finally show ?thesis
    by (simp add: w8_def)
qed

lemma core_script_js_shape:
  "core_script_js w =
     (Normal Undefined,
      w\<lparr>globals := (globals w)(''params'' \<mapsto> Arr [Str ''joynager'']),
        fn_proto := (fn_proto w)(''mybind'' \<mapsto> Fun MyBind),
        console := console w @
          [(Log, [Str ''Core js fundamental'']), (Log, [Str ''Pijush Ray mondal'']),
           (Log, [Arr [Str ''joynager'']]), (Log, [Str ''object'']),
           (Log, [name1]), (Log, [Str ''Pijush Ray mondal''])]\<rparr>)"
  by (simp add: core_script_js_def Let_def console_log_def assign_global_def
        read_identifier_def typeof_identifier_def run_call_def concat_js_def index_js_def
        name1_def function_method_def mybind_def slice_js_def)

lemma array_js_shape:
  "array_js w = w\<lparr>console := console w @ console (array_js empty_world)\<rparr>"
  by (simp add: array_js_def Let_def console_log_def empty_world_def)

lemma date_js_shape:
  "date_js w = w\<lparr>console := console w @ console (date_js empty_world)\<rparr>"
  by (simp add: date_js_def Let_def console_log_def empty_world_def)

lemma empty_world_at_rest: "at_rest empty_world"
  by (simp add: at_rest_def empty_world_def)

lemma array_js_rest: "at_rest w \<Longrightarrow> at_rest (array_js w)"
  by (subst array_js_shape) (simp add: at_rest_def)

lemma date_js_rest: "at_rest w \<Longrightarrow> at_rest (date_js w)"
  by (subst date_js_shape) (simp add: at_rest_def)

lemma array_js_frame: "globals (array_js w) = globals w" "fn_proto (array_js w) = fn_proto w"
  by (subst array_js_shape, simp)+

lemma date_js_frame: "globals (date_js w) = globals w" "fn_proto (date_js w) = fn_proto w"
  by (subst date_js_shape, simp)+

lemma async_shape:
  assumes "at_rest w" and "3 \<le> n"
  shows "(step ^^ n) (snd (asyncPromise_js w)) =
     w\<lparr>timers := [], clock := clock w + 3000,
       history := history w @ [CalledReject (length (promises w)) rejection,
                               RanHandler LogError rejection],
       console :=
         console w @
           [(Log, [Str ''ex:2'']), (Log, [Str ''start syn code'']),
            (Log, [Str ''Syn--Promises in JavaScript'']), (Log, [Str ''end syn code'']),
            (Log, [Str ''ex:2'']), (Log, [Str ''start Promises code'']),
            (Log, [Str ''end Promises code'']), (Log, [rejection]), (Err, [rejection])],
       promises :=
         promises w @
           [\<lparr>pstate = Rejected rejection, reactions = []\<rparr>,
            \<lparr>pstate = Rejected rejection, reactions = []\<rparr>,
            \<lparr>pstate = Fulfilled Undefined, reactions = []\<rparr>]\<rparr>"
  using trans [OF enough_turns [OF assms] three_turns [OF assms(1)]]
  by (simp add: after_turns_def after_top_level_def)

lemma evaluate_from_rest:
  assumes "at_rest w" and "3 \<le> n"
  shows "output_of n f w = output_of n f empty_world"
    and "globals (snd (evaluate n f w)) = globals w ++ globals (snd (evaluate n f empty_world))"
    and "fn_proto (snd (evaluate n f w)) = fn_proto w ++ fn_proto (snd (evaluate n f empty_world))"
    and "at_rest (snd (evaluate n f w))"
proof -
  note a = async_shape [OF assms] async_shape [OF empty_world_at_rest assms(2)]
  have r: "microtasks w = []" "timers w = []"
    using assms(1) by (simp_all add: at_rest_def)
  have e: "globals empty_world = Map.empty" "fn_proto empty_world = Map.empty"
    "console empty_world = []" "microtasks empty_world = []" "timers empty_world = []"
    by (simp_all add: empty_world_def)
  have s: "(step ^^ n) (array_js empty_world) = array_js empty_world"
    "(step ^^ n) (date_js empty_world) = date_js empty_world"
    by (simp_all add: steps_at_rest array_js_rest date_js_rest empty_world_at_rest)
  show "output_of n f w = output_of n f empty_world"
    by (cases f)
       (simp_all add: output_of_def evaluate_def a this_js_shape core_script_js_shape
          array_js_shape [of w] date_js_shape [of w] steps_at_rest at_rest_def r e s)
  show "globals (snd (evaluate n f w)) = globals w ++ globals (snd (evaluate n f empty_world))"
    by (cases f)
       (simp_all add: evaluate_def steps_frame this_js_shape core_script_js_shape
          array_js_frame date_js_frame a e)
  show "fn_proto (snd (evaluate n f w)) = fn_proto w ++ fn_proto (snd (evaluate n f empty_world))"
    by (cases f)
       (simp_all add: evaluate_def steps_frame this_js_shape core_script_js_shape
          array_js_frame date_js_frame a e)
  show "at_rest (snd (evaluate n f w))"
    by (cases f)
       (simp_all add: evaluate_def a this_js_shape core_script_js_shape
          array_js_shape [of w] date_js_shape [of w] steps_at_rest at_rest_def r)
qed

lemma evaluate_all_at_rest:
  "at_rest w \<Longrightarrow> 3 \<le> n \<Longrightarrow> at_rest (evaluate_all n gs w)"
  by (induction gs arbitrary: w) (simp_all add: evaluate_all_def evaluate_from_rest(4))

text \<open>
  C6 (as stated it fails). The scripts do write global state: the script on \<^verbatim>\<open>this\<close>
  gives the global object the property \<^verbatim>\<open>name\<close>, and the bind script gives
  \<^verbatim>\<open>Function.prototype\<close> the property \<^verbatim>\<open>mybind\<close>; neither is there on a fresh page.
\<close>

theorem scripts_write_global_state:
  "globals (snd (evaluate 0 ThisKeyword empty_world)) ''name'' \<noteq> globals empty_world ''name''
   \<and> globals (snd (evaluate 0 ThisKeyword empty_world)) ''name'' = Some (Str ''sarah'')
   \<and> fn_proto (snd (evaluate 0 CoreScript empty_world)) ''mybind'' \<noteq> fn_proto empty_world ''mybind''
   \<and> fn_proto (snd (evaluate 0 CoreScript empty_world)) ''mybind'' = Some (Fun MyBind)"
  by (simp add: evaluate_def this_js_shape core_script_js_shape) (simp add: empty_world_def)

text \<open>
  C6, amended. Evaluating a file, from any page and for any number of turns of the event
  loop, changes of the global state only what the file sets on purpose: the script on
  \<^verbatim>\<open>this\<close> sets the property \<^verbatim>\<open>name\<close> of the global object to \<^verbatim>\<open>"sarah"\<close>, binds the
  function it declares to the property \<^verbatim>\<open>Person\<close>, and changes no other property; the
  bind script adds \<^verbatim>\<open>mybind\<close> to \<^verbatim>\<open>Function.prototype\<close> and leaves every
  property of the global object other than \<^verbatim>\<open>params\<close> as it was; the promise script, the
  array script, the relative time script and the notes leave the global object and
  \<^verbatim>\<open>Function.prototype\<close> as they were. Nothing is said of \<^verbatim>\<open>params\<close>.
\<close>

theorem files_global_writes:
  "globals (snd (evaluate n ThisKeyword w))
       = (globals w)(''Person'' \<mapsto> Fun Person, ''name'' \<mapsto> Str ''sarah'')
   \<and> fn_proto (snd (evaluate n ThisKeyword w)) = fn_proto w
   \<and> fn_proto (snd (evaluate n CoreScript w)) = (fn_proto w)(''mybind'' \<mapsto> Fun MyBind)
   \<and> (k \<noteq> ''params'' \<longrightarrow> globals (snd (evaluate n CoreScript w)) k = globals w k)
   \<and> (f \<in> {AsyncPromise, ArrayScript, DateScript, Notes} \<longrightarrow>
        globals (snd (evaluate n f w)) = globals w
        \<and> fn_proto (snd (evaluate n f w)) = fn_proto w)"
proof -
  have "globals (snd (evaluate n ThisKeyword w))
       = (globals w)(''Person'' \<mapsto> Fun Person, ''name'' \<mapsto> Str ''sarah'')"
    and "fn_proto (snd (evaluate n ThisKeyword w)) = fn_proto w"
    by (simp_all add: evaluate_def steps_frame this_js_shape)
  moreover have "fn_proto (snd (evaluate n CoreScript w)) = (fn_proto w)(''mybind'' \<mapsto> Fun MyBind)"
    and "k \<noteq> ''params'' \<longrightarrow> globals (snd (evaluate n CoreScript w)) k = globals w k"
    by (simp_all add: evaluate_def steps_frame core_script_js_shape)
  moreover have "f \<in> {AsyncPromise, ArrayScript, DateScript, Notes} \<longrightarrow>
        globals (snd (evaluate n f w)) = globals w
        \<and> fn_proto (snd (evaluate n f w)) = fn_proto w"
  proof -
    show ?thesis
      by (auto simp: evaluate_def steps_frame array_js_frame date_js_frame asyncPromise_js_frame)
  qed
  ultimately show ?thesis
    by blast
qed

theorem files_global_writes_witness:
  "''name'' \<noteq> ''params''
   \<and> globals (snd (evaluate 3 CoreScript empty_world)) ''name'' = None
   \<and> ArrayScript \<in> {AsyncPromise, ArrayScript, DateScript, Notes}
   \<and> globals (snd (evaluate 3 ArrayScript empty_world)) = Map.empty
   \<and> globals (snd (evaluate 3 ThisKeyword empty_world)) ''name'' = Some (Str ''sarah'')
   \<and> globals (snd (evaluate 3 ThisKeyword empty_world)) ''Person'' = Some (Fun Person)
   \<and> dom (globals (snd (evaluate 3 ThisKeyword empty_world))) = {''Person'', ''name''}"
  using files_global_writes [of 3 empty_world "''name''" ArrayScript]
  by (simp add: empty_world_def insert_commute)

text \<open>
  C7. The files do not depend on each other. Let any of the other files of the
  repository be evaluated first, each once and to its end (three turns of the event loop
  let the one timer and its reactions run). Then a file does what it does on a fresh
  page: its top level ends the same way, it adds the same entries to the console, and the
  properties it leaves on the global object and on \<^verbatim>\<open>Function.prototype\<close> are those it
  leaves on a fresh page, laid over what the earlier files left. No file reads what
  another has written.
\<close>

theorem files_are_independent:
  assumes "3 \<le> n" and "f \<notin> set gs" and "distinct gs"
  shows "output_of n f (evaluate_all n gs empty_world) = output_of n f empty_world
   \<and> globals (snd (evaluate n f (evaluate_all n gs empty_world)))
       = globals (evaluate_all n gs empty_world) ++ globals (snd (evaluate n f empty_world))
   \<and> fn_proto (snd (evaluate n f (evaluate_all n gs empty_world)))
       = fn_proto (evaluate_all n gs empty_world) ++ fn_proto (snd (evaluate n f empty_world))"
proof -
  have "at_rest (evaluate_all n gs empty_world)"
    using empty_world_at_rest assms(1) by (rule evaluate_all_at_rest)
  then show ?thesis
    using assms(1) by (simp add: evaluate_from_rest(1-3))
qed

theorem files_are_independent_witness:
  "(3::nat) \<le> 3 \<and> ThisKeyword \<notin> set [CoreScript, AsyncPromise]
   \<and> distinct [CoreScript, AsyncPromise]
   \<and> output_of 3 ThisKeyword (evaluate_all 3 [CoreScript, AsyncPromise] empty_world)
       = output_of 3 ThisKeyword empty_world
   \<and> globals (snd (evaluate 3 ThisKeyword (evaluate_all 3 [CoreScript, AsyncPromise] empty_world)))
       = globals (evaluate_all 3 [CoreScript, AsyncPromise] empty_world)
           ++ globals (snd (evaluate 3 ThisKeyword empty_world))"
  using files_are_independent [of 3 ThisKeyword "[CoreScript, AsyncPromise]"]
  by simp

end
